theory Spec2Isabelle
  imports Main "HOL-Library.Sublist"
begin

unbundle bit_operations_syntax

section \<open>Python values\<close>

text \<open>
  A Python \<open>str\<close> is a sequence of Unicode code points; a code point is a natural number.
  \<open>py\<close> embeds an ASCII literal of the script. The two non-ASCII characters of the prompt
  template are written by their code points (177 for the plus-minus sign, 963 for sigma).
\<close>

type_synonym pystr = "nat list"

definition py :: "string \<Rightarrow> pystr" where
  "py cs = map of_char cs"

definition nl :: pystr where
  "nl = [10]"

text \<open>\<open>sep.join(xs)\<close>\<close>

fun join :: "pystr \<Rightarrow> pystr list \<Rightarrow> pystr" where
  "join sep [] = []"
| "join sep [x] = x"
| "join sep (x # y # ys) = x @ sep @ join sep (y # ys)"

text \<open>
  Floats stay abstract: a finite float is a value of the type parameter \<open>'f\<close>, and
  \<open>float.__repr__\<close> on finite floats is the parameter \<open>fr\<close> of every function that prints one.
\<close>

datatype 'f pyfloat = Finite 'f | PosInf | NegInf | NaN

datatype 'f scalar = PyNone | PyBool bool | PyInt int | PyFloat "'f pyfloat" | PyStr pystr

text \<open>A dict is the list of its items in insertion order.\<close>

datatype 'f pyval = Scalar "'f scalar" | PyList "'f pyval list" | PyDict "(pystr \<times> 'f pyval) list"

fun str_nat :: "nat \<Rightarrow> pystr" where
  "str_nat n = (if n < 10 then [48 + n] else str_nat (n div 10) @ [48 + n mod 10])"

definition str_int :: "int \<Rightarrow> pystr" where
  "str_int i = (if i < 0 then 45 # str_nat (nat (- i)) else str_nat (nat i))"

fun str_float :: "('f \<Rightarrow> pystr) \<Rightarrow> 'f pyfloat \<Rightarrow> pystr" where
  "str_float fr (Finite x) = fr x"
| "str_float fr PosInf = py ''inf''"
| "str_float fr NegInf = py ''-inf''"
| "str_float fr NaN = py ''nan''"

text \<open>\<open>format(v, '')\<close>, which is what a replacement field \<open>{v}\<close> of an f-string prints.\<close>

fun py_format :: "('f \<Rightarrow> pystr) \<Rightarrow> 'f scalar \<Rightarrow> pystr" where
  "py_format fr PyNone = py ''None''"
| "py_format fr (PyBool b) = (if b then py ''True'' else py ''False'')"
| "py_format fr (PyInt i) = str_int i"
| "py_format fr (PyFloat x) = str_float fr x"
| "py_format fr (PyStr s) = s"

section \<open>Anomaly records\<close>

text \<open>
  A scenario is a dict with a fixed set of keys. Each key is a field that is absent
  (\<open>None\<close>) or holds a value; subscripting an absent key raises \<open>KeyError\<close>.
\<close>

record 'f scenario =
  service :: "'f scalar option"
  operation :: "'f scalar option"
  duration :: "'f scalar option"
  expected_mean :: "'f scalar option"
  expected_std :: "'f scalar option"
  deviation :: "'f scalar option"
  severity :: "'f scalar option"
  severity_name :: "'f scalar option"
  attributes :: "(pystr \<times> 'f scalar) list option"
  summary :: "'f scalar option"
  causes :: "'f scalar list option"
  recommendations :: "'f scalar list option"
  confidence :: "'f scalar option"

datatype error = KeyError pystr | TypeError | JSONDecodeError | RecursionError | FileNotFoundError

definition getitem :: "string \<Rightarrow> 'a option \<Rightarrow> error + 'a" where
  "getitem k v = (case v of None \<Rightarrow> Inl (KeyError (py k)) | Some x \<Rightarrow> Inr x)"

definition ebind :: "error + 'a \<Rightarrow> ('a \<Rightarrow> error + 'b) \<Rightarrow> error + 'b" where
  "ebind m f = (case m of Inl e \<Rightarrow> Inl e | Inr x \<Rightarrow> f x)"

section \<open>The response renderer\<close>

definition build_output :: "('f \<Rightarrow> pystr) \<Rightarrow> 'f scenario \<Rightarrow> error + pystr" where
  "build_output fr s =
     ebind (getitem ''causes'' (causes s)) (\<lambda>cs.
     let causes = join nl (map (\<lambda>c. py ''- '' @ py_format fr c) cs) in
     ebind (getitem ''recommendations'' (recommendations s)) (\<lambda>rs.
     let recs = join nl (map (\<lambda>r. py ''- '' @ py_format fr r) rs) in
     ebind (getitem ''summary'' (summary s)) (\<lambda>sm.
     ebind (getitem ''confidence'' (confidence s)) (\<lambda>cf.
     Inr (py ''SUMMARY: '' @ py_format fr sm @ py ''\<newline>CAUSES:\<newline>'' @
          causes @ py ''\<newline>RECOMMENDATIONS:\<newline>'' @
          recs @ py ''\<newline>CONFIDENCE: '' @ py_format fr cf)))))"

section \<open>JSON encoding\<close>

text \<open>
  \<open>json.dumps\<close> of the standard library, for the two shapes the script encodes: the
  attributes dict with \<open>indent=2\<close> (and the default \<open>ensure_ascii=True\<close>), and the
  three-string entry with \<open>ensure_ascii=False\<close>.
\<close>

definition hex_digit :: "nat \<Rightarrow> nat" where
  "hex_digit d = (if d < 10 then 48 + d else 87 + d)"

text \<open>\<open>'\\u{0:04x}'.format(n)\<close>, for \<open>n < 0x10000\<close>\<close>

definition u_escape :: "nat \<Rightarrow> pystr" where
  "u_escape n =
     [92, 117, hex_digit (n div 4096 mod 16), hex_digit (n div 256 mod 16),
      hex_digit (n div 16 mod 16), hex_digit (n mod 16)]"

text \<open>
  \<open>ESCAPE_DCT\<close>: backslash, double quote, \<open>\b\<close>, \<open>\f\<close>, \<open>\n\<close>, \<open>\r\<close>, \<open>\t\<close>, and
  \<open>\u00XX\<close> for the other control characters.
\<close>

definition escape_dct :: "nat \<Rightarrow> pystr option" where
  "escape_dct c =
     (if c = 92 then Some [92, 92]
      else if c = 34 then Some [92, 34]
      else if c = 8 then Some [92, 98]
      else if c = 12 then Some [92, 102]
      else if c = 10 then Some [92, 110]
      else if c = 13 then Some [92, 114]
      else if c = 9 then Some [92, 116]
      else if c < 32 then Some (u_escape c)
      else None)"

text \<open>\<open>encode_basestring\<close> (\<open>ensure_ascii=False\<close>)\<close>

definition replace_char :: "nat \<Rightarrow> pystr" where
  "replace_char c = (case escape_dct c of Some e \<Rightarrow> e | None \<Rightarrow> [c])"

definition encode_basestring :: "pystr \<Rightarrow> pystr" where
  "encode_basestring s = [34] @ concat (map replace_char s) @ [34]"

text \<open>\<open>encode_basestring_ascii\<close> (\<open>ensure_ascii=True\<close>)\<close>

definition replace_char_ascii :: "nat \<Rightarrow> pystr" where
  "replace_char_ascii c =
     (if c = 92 \<or> c = 34 \<or> c < 32 \<or> 126 < c then
        (case escape_dct c of
           Some e \<Rightarrow> e
         | None \<Rightarrow>
             if c < 65536 then u_escape c
             else
               let n = c - 65536;
                   s1 = 55296 OR (drop_bit 10 n AND 1023);
                   s2 = 56320 OR (n AND 1023)
               in u_escape s1 @ u_escape s2)
      else [c])"

definition encode_basestring_ascii :: "pystr \<Rightarrow> pystr" where
  "encode_basestring_ascii s = [34] @ concat (map replace_char_ascii s) @ [34]"

fun floatstr :: "('f \<Rightarrow> pystr) \<Rightarrow> 'f pyfloat \<Rightarrow> pystr" where
  "floatstr fr NaN = py ''NaN''"
| "floatstr fr PosInf = py ''Infinity''"
| "floatstr fr NegInf = py ''-Infinity''"
| "floatstr fr (Finite x) = fr x"

text \<open>A scalar value, with \<open>enc\<close> the string encoder that \<open>ensure_ascii\<close> selects.\<close>

fun json_scalar :: "(pystr \<Rightarrow> pystr) \<Rightarrow> ('f \<Rightarrow> pystr) \<Rightarrow> 'f scalar \<Rightarrow> pystr" where
  "json_scalar enc fr (PyStr s) = enc s"
| "json_scalar enc fr PyNone = py ''null''"
| "json_scalar enc fr (PyBool b) = (if b then py ''true'' else py ''false'')"
| "json_scalar enc fr (PyInt i) = str_int i"
| "json_scalar enc fr (PyFloat x) = floatstr fr x"

text \<open>\<open>json.dumps(dct, indent=2)\<close> for a dict of scalars, in the dict's insertion order.\<close>

definition json_item :: "('f \<Rightarrow> pystr) \<Rightarrow> pystr \<times> 'f scalar \<Rightarrow> pystr" where
  "json_item fr kv =
     encode_basestring_ascii (fst kv) @ py '': '' @
     json_scalar encode_basestring_ascii fr (snd kv)"

definition json_dumps_indent2 :: "('f \<Rightarrow> pystr) \<Rightarrow> (pystr \<times> 'f scalar) list \<Rightarrow> pystr" where
  "json_dumps_indent2 fr dct =
     (if dct = [] then py ''{}''
      else
        let newline_indent = nl @ py ''  '';
            item_separator = py '','' @ newline_indent
        in py ''{'' @ newline_indent @ join item_separator (map (json_item fr) dct) @
           nl @ py ''}'')"

text \<open>
  \<open>json.dumps(obj, ensure_ascii=False)\<close>, which the generation loop applies to its
  entry: no indentation, the separators \<open>', '\<close> and \<open>': '\<close>, items in insertion order.
\<close>

fun json_dumps :: "('f \<Rightarrow> pystr) \<Rightarrow> 'f pyval \<Rightarrow> pystr" where
  "json_dumps fr (Scalar x) = json_scalar encode_basestring fr x"
| "json_dumps fr (PyList xs) =
     (if xs = [] then py ''[]''
      else py ''['' @ join (py '', '') (map (json_dumps fr) xs) @ py '']'')"
| "json_dumps fr (PyDict d) =
     (if d = [] then py ''{}''
      else py ''{'' @
           join (py '', '')
             (map (\<lambda>(k, v). encode_basestring k @ py '': '' @ json_dumps fr v) d) @
           py ''}'')"

section \<open>The prompt renderer\<close>

definition build_instruction :: "('f \<Rightarrow> pystr) \<Rightarrow> 'f scenario \<Rightarrow> error + pystr" where
  "build_instruction fr s =
     ebind (getitem ''service'' (service s)) (\<lambda>v_service.
     ebind (getitem ''operation'' (operation s)) (\<lambda>v_operation.
     ebind (getitem ''duration'' (duration s)) (\<lambda>v_duration.
     ebind (getitem ''expected_mean'' (expected_mean s)) (\<lambda>v_mean.
     ebind (getitem ''expected_std'' (expected_std s)) (\<lambda>v_std.
     ebind (getitem ''deviation'' (deviation s)) (\<lambda>v_deviation.
     ebind (getitem ''severity'' (severity s)) (\<lambda>v_severity.
     ebind (getitem ''severity_name'' (severity_name s)) (\<lambda>v_name.
     ebind (getitem ''attributes'' (attributes s)) (\<lambda>v_attributes.
     Inr (py ''You are an expert in distributed systems and observability. Analyze this performance anomaly:\<newline>\<newline>## Anomaly Details\<newline>- Service: '' @
          py_format fr v_service @
          py ''\<newline>- Operation: '' @
          py_format fr v_operation @
          py ''\<newline>- Duration: '' @
          py_format fr v_duration @
          py ''ms (expected: '' @
          py_format fr v_mean @
          py ''ms '' @ [177] @ py '' '' @
          py_format fr v_std @
          py ''ms)\<newline>- Deviation: '' @
          py_format fr v_deviation @
          [963] @ py '' (standard deviations from mean)\<newline>- Severity: SEV'' @
          py_format fr v_severity @
          py '' ('' @
          py_format fr v_name @
          py '')\<newline>\<newline>## Span Attributes\<newline>'' @
          json_dumps_indent2 fr v_attributes @
          py ''\<newline>\<newline>Based on the trace data AND correlated metrics, provide:\<newline>1. A brief summary (1-2 sentences) of what likely caused this anomaly\<newline>2. 2-3 possible root causes (consider resource utilization if metrics show issues)\<newline>3. 2-3 actionable recommendations\<newline>\<newline>Format your response as:\<newline>SUMMARY: [your summary]\<newline>CAUSES:\<newline>- [cause 1]\<newline>- [cause 2]\<newline>RECOMMENDATIONS:\<newline>- [recommendation 1]\<newline>- [recommendation 2]\<newline>CONFIDENCE: [low/medium/high]''))))))))))"

section \<open>JSON decoding\<close>

text \<open>
  \<open>json.loads\<close> of the standard library, in its default configuration (strict strings,
  \<open>int\<close> for integers, \<open>float\<close> for the other numbers). \<open>float\<close> on a number token is the
  parameter \<open>pf\<close>. Every \<open>JSONDecodeError\<close> is one error value; positions and messages are
  left out. The scanner recurses on fuel, which \<open>json_loads\<close> sets from the length of its
  input.
\<close>

definition is_ws :: "nat \<Rightarrow> bool" where
  "is_ws c \<longleftrightarrow> c = 32 \<or> c = 9 \<or> c = 10 \<or> c = 13"

definition skip_ws :: "pystr \<Rightarrow> pystr" where
  "skip_ws s = dropWhile is_ws s"

definition is_digit :: "nat \<Rightarrow> bool" where
  "is_digit c \<longleftrightarrow> 48 \<le> c \<and> c \<le> 57"

definition hex_val :: "nat \<Rightarrow> nat option" where
  "hex_val c =
     (if 48 \<le> c \<and> c \<le> 57 then Some (c - 48)
      else if 97 \<le> c \<and> c \<le> 102 then Some (c - 87)
      else if 65 \<le> c \<and> c \<le> 70 then Some (c - 55)
      else None)"

fun decode_uXXXX :: "pystr \<Rightarrow> nat option" where
  "decode_uXXXX (a # b # c # d # rest) =
     (case (hex_val a, hex_val b, hex_val c, hex_val d) of
        (Some x3, Some x2, Some x1, Some x0) \<Rightarrow> Some (((x3 * 16 + x2) * 16 + x1) * 16 + x0)
      | _ \<Rightarrow> None)"
| "decode_uXXXX _ = None"

text \<open>The \<open>BACKSLASH\<close> table of the decoder.\<close>

definition backslash :: "nat \<Rightarrow> nat option" where
  "backslash e =
     (if e = 34 then Some 34
      else if e = 92 then Some 92
      else if e = 47 then Some 47
      else if e = 98 then Some 8
      else if e = 102 then Some 12
      else if e = 110 then Some 10
      else if e = 114 then Some 13
      else if e = 116 then Some 9
      else None)"

definition cons_char :: "nat \<Rightarrow> error + (pystr \<times> pystr) \<Rightarrow> error + (pystr \<times> pystr)" where
  "cons_char c r = (case r of Inl e \<Rightarrow> Inl e | Inr (s, rest) \<Rightarrow> Inr (c # s, rest))"

text \<open>
  \<open>scanstring\<close>, entered after the opening quote: the decoded string and the input after
  the closing quote.
\<close>

fun scanstring :: "pystr \<Rightarrow> error + (pystr \<times> pystr)" where
  "scanstring [] = Inl JSONDecodeError"
| "scanstring (c # cs) =
     (if c = 34 then Inr ([], cs)
      else if c = 92 then
        (case cs of
           [] \<Rightarrow> Inl JSONDecodeError
         | e # r \<Rightarrow>
             if e = 117 then
               (case decode_uXXXX r of
                  None \<Rightarrow> Inl JSONDecodeError
                | Some uni \<Rightarrow>
                    if 55296 \<le> uni \<and> uni \<le> 56319 \<and> take 2 (drop 4 r) = [92, 117] then
                      (case decode_uXXXX (drop 6 r) of
                         None \<Rightarrow> Inl JSONDecodeError
                       | Some uni2 \<Rightarrow>
                           if 56320 \<le> uni2 \<and> uni2 \<le> 57343 then
                             cons_char (65536 + (push_bit 10 (uni - 55296) OR (uni2 - 56320)))
                               (scanstring (drop 10 r))
                           else cons_char uni (scanstring (drop 4 r)))
                    else cons_char uni (scanstring (drop 4 r)))
             else
               (case backslash e of
                  None \<Rightarrow> Inl JSONDecodeError
                | Some ch \<Rightarrow> cons_char ch (scanstring r)))
      else if c < 32 then Inl JSONDecodeError
      else cons_char c (scanstring cs))"

text \<open>
  \<open>NUMBER_RE\<close>: an optional minus sign, \<open>0\<close> or a digit run that starts with 1 to 9, an
  optional fraction, an optional exponent. The result is the three groups and the input
  after the match.
\<close>

definition match_frac :: "pystr \<Rightarrow> pystr \<times> pystr" where
  "match_frac s =
     (case s of
        c # d # r \<Rightarrow>
          if c = 46 \<and> is_digit d then (c # takeWhile is_digit (d # r), dropWhile is_digit (d # r))
          else ([], s)
      | _ \<Rightarrow> ([], s))"

definition match_exp :: "pystr \<Rightarrow> pystr \<times> pystr" where
  "match_exp s =
     (case s of
        [] \<Rightarrow> ([], s)
      | e # r \<Rightarrow>
          if e = 101 \<or> e = 69 then
            (let sg = (if r \<noteq> [] \<and> (hd r = 45 \<or> hd r = 43) then [hd r] else []);
                 r' = drop (length sg) r
             in if r' \<noteq> [] \<and> is_digit (hd r')
                then (e # sg @ takeWhile is_digit r', dropWhile is_digit r')
                else ([], s))
          else ([], s))"

definition match_number :: "pystr \<Rightarrow> ((pystr \<times> pystr \<times> pystr) \<times> pystr) option" where
  "match_number s =
     (let sg = (if s \<noteq> [] \<and> hd s = 45 then [45] else []);
          s1 = drop (length sg) s
      in case s1 of
           [] \<Rightarrow> None
         | d # s2 \<Rightarrow>
             if d = 48 \<or> (49 \<le> d \<and> d \<le> 57) then
               (let ds = (if d = 48 then [] else takeWhile is_digit s2);
                    s3 = drop (length ds) s2;
                    (frac, s4) = match_frac s3;
                    (exp, s5) = match_exp s4
                in Some ((sg @ d # ds, frac, exp), s5))
             else None)"

definition digits_val :: "pystr \<Rightarrow> nat" where
  "digits_val ds = foldl (\<lambda>a d. 10 * a + (d - 48)) 0 ds"

definition parse_int :: "pystr \<Rightarrow> int" where
  "parse_int s = (if s \<noteq> [] \<and> hd s = 45 then - int (digits_val (tl s)) else int (digits_val s))"

text \<open>\<open>dict(pairs)\<close>: a repeated key keeps its first position and takes the last value.\<close>

fun dict_set :: "(pystr \<times> 'v) list \<Rightarrow> pystr \<Rightarrow> 'v \<Rightarrow> (pystr \<times> 'v) list" where
  "dict_set [] k v = [(k, v)]"
| "dict_set (kv # d) k v = (if fst kv = k then (k, v) # d else kv # dict_set d k v)"

definition dict :: "(pystr \<times> 'v) list \<Rightarrow> (pystr \<times> 'v) list" where
  "dict pairs = foldl (\<lambda>d kv. dict_set d (fst kv) (snd kv)) [] pairs"

fun scan_once :: "(pystr \<Rightarrow> 'f pyfloat) \<Rightarrow> nat \<Rightarrow> pystr \<Rightarrow> error + ('f pyval \<times> pystr)"
  and object_pairs :: "(pystr \<Rightarrow> 'f pyfloat) \<Rightarrow> nat \<Rightarrow> pystr \<Rightarrow> (pystr \<times> 'f pyval) list \<Rightarrow>
     error + ('f pyval \<times> pystr)"
  and array_items :: "(pystr \<Rightarrow> 'f pyfloat) \<Rightarrow> nat \<Rightarrow> pystr \<Rightarrow> 'f pyval list \<Rightarrow>
     error + ('f pyval \<times> pystr)"
where
  "scan_once pf 0 s = Inl RecursionError"
| "scan_once pf (Suc n) s =
     (case s of
        [] \<Rightarrow> Inl JSONDecodeError
      | c # cs \<Rightarrow>
          if c = 34 then
            (case scanstring cs of
               Inl e \<Rightarrow> Inl e
             | Inr (str, rest) \<Rightarrow> Inr (Scalar (PyStr str), rest))
          else if c = 123 then
            (case skip_ws cs of
               [] \<Rightarrow> Inl JSONDecodeError
             | d # r \<Rightarrow>
                 if d = 125 then Inr (PyDict [], r)
                 else if d = 34 then object_pairs pf n r []
                 else Inl JSONDecodeError)
          else if c = 91 then
            (case skip_ws cs of
               [] \<Rightarrow> array_items pf n [] []
             | d # r \<Rightarrow> if d = 93 then Inr (PyList [], r) else array_items pf n (d # r) [])
          else if prefix (py ''null'') s then Inr (Scalar PyNone, drop 4 s)
          else if prefix (py ''true'') s then Inr (Scalar (PyBool True), drop 4 s)
          else if prefix (py ''false'') s then Inr (Scalar (PyBool False), drop 5 s)
          else
            (case match_number s of
               Some ((integer, frac, exp), rest) \<Rightarrow>
                 if frac \<noteq> [] \<or> exp \<noteq> []
                 then Inr (Scalar (PyFloat (pf (integer @ frac @ exp))), rest)
                 else Inr (Scalar (PyInt (parse_int integer)), rest)
             | None \<Rightarrow>
                 if prefix (py ''NaN'') s then Inr (Scalar (PyFloat NaN), drop 3 s)
                 else if prefix (py ''Infinity'') s then Inr (Scalar (PyFloat PosInf), drop 8 s)
                 else if prefix (py ''-Infinity'') s then Inr (Scalar (PyFloat NegInf), drop 9 s)
                 else Inl JSONDecodeError))"
| "object_pairs pf 0 s pairs = Inl RecursionError"
| "object_pairs pf (Suc n) s pairs =
     (case scanstring s of
        Inl e \<Rightarrow> Inl e
      | Inr (key, s1) \<Rightarrow>
          (case skip_ws s1 of
             [] \<Rightarrow> Inl JSONDecodeError
           | c # s2 \<Rightarrow>
               if c \<noteq> 58 then Inl JSONDecodeError
               else
                 (case scan_once pf n (skip_ws s2) of
                    Inl e \<Rightarrow> Inl e
                  | Inr (v, s3) \<Rightarrow>
                      (case skip_ws s3 of
                         [] \<Rightarrow> Inl JSONDecodeError
                       | nextchar # s4 \<Rightarrow>
                           if nextchar = 125 then Inr (PyDict (dict (pairs @ [(key, v)])), s4)
                           else if nextchar \<noteq> 44 then Inl JSONDecodeError
                           else
                             (case skip_ws s4 of
                                [] \<Rightarrow> Inl JSONDecodeError
                              | q # s5 \<Rightarrow>
                                  if q \<noteq> 34 then Inl JSONDecodeError
                                  else object_pairs pf n s5 (pairs @ [(key, v)]))))))"
| "array_items pf 0 s vs = Inl RecursionError"
| "array_items pf (Suc n) s vs =
     (case scan_once pf n s of
        Inl e \<Rightarrow> Inl e
      | Inr (v, s1) \<Rightarrow>
          (case skip_ws s1 of
             [] \<Rightarrow> Inl JSONDecodeError
           | nextchar # s2 \<Rightarrow>
               if nextchar = 93 then Inr (PyList (vs @ [v]), s2)
               else if nextchar \<noteq> 44 then Inl JSONDecodeError
               else array_items pf n (skip_ws s2) (vs @ [v])))"

definition json_loads :: "(pystr \<Rightarrow> 'f pyfloat) \<Rightarrow> pystr \<Rightarrow> error + 'f pyval" where
  "json_loads pf s =
     (case scan_once pf (2 * length s + 2) (skip_ws s) of
        Inl e \<Rightarrow> Inl e
      | Inr (obj, rest) \<Rightarrow> if skip_ws rest = [] then Inr obj else Inl JSONDecodeError)"

section \<open>The generation loop\<close>

text \<open>
  The output file is a text file: its content is the text written to it. Opening it with
  mode \<open>w\<close> starts from the empty file. Reading it back splits the content into lines,
  each with its line end, under universal newlines.
\<close>

type_synonym filesystem = "string \<rightharpoonup> pystr"

definition output_file :: string where
  "output_file = ''data/training-data-axolotl.jsonl''"

text \<open>The entry dict of one iteration.\<close>

definition make_entry :: "('f \<Rightarrow> pystr) \<Rightarrow> 'f scenario \<Rightarrow> error + 'f pyval" where
  "make_entry fr scenario =
     ebind (build_instruction fr scenario) (\<lambda>i.
     ebind (build_output fr scenario) (\<lambda>out.
     Inr (PyDict [(py ''instruction'', Scalar (PyStr i)),
                  (py ''input'', Scalar (PyStr [])),
                  (py ''output'', Scalar (PyStr out))])))"

fun generation_loop :: "('f \<Rightarrow> pystr) \<Rightarrow> 'f scenario list \<Rightarrow> pystr \<Rightarrow> error option \<times> pystr" where
  "generation_loop fr [] f = (None, f)"
| "generation_loop fr (scenario # rest) f =
     (case make_entry fr scenario of
        Inl e \<Rightarrow> (Some e, f)
      | Inr entry \<Rightarrow> generation_loop fr rest (f @ json_dumps fr entry @ nl))"

fun readlines_from :: "pystr \<Rightarrow> pystr \<Rightarrow> pystr list" where
  "readlines_from cur [] = (if cur = [] then [] else [cur])"
| "readlines_from cur (c # cs) =
     (if c = 10 then (cur @ [10]) # readlines_from [] cs
      else if c = 13 then
        (cur @ [10]) # readlines_from [] (if cs \<noteq> [] \<and> hd cs = 10 then tl cs else cs)
      else readlines_from (cur @ [c]) cs)"

definition readlines :: "pystr \<Rightarrow> pystr list" where
  "readlines f = readlines_from [] f"

section \<open>The validation loop\<close>

fun subscript :: "'f pyval \<Rightarrow> pystr \<Rightarrow> error + 'f pyval" where
  "subscript (PyDict d) k = (case map_of d k of None \<Rightarrow> Inl (KeyError k) | Some v \<Rightarrow> Inr v)"
| "subscript (PyList xs) k = Inl TypeError"
| "subscript (Scalar x) k = Inl TypeError"

text \<open>\<open>m in out\<close> for a string \<open>m\<close>\<close>

fun py_in :: "pystr \<Rightarrow> 'f pyval \<Rightarrow> error + bool" where
  "py_in m (Scalar (PyStr s)) = Inr (sublist m s)"
| "py_in m (Scalar x) = Inl TypeError"
| "py_in m (PyList xs) = Inr (Scalar (PyStr m) \<in> set xs)"
| "py_in m (PyDict d) = Inr (m \<in> set (map fst d))"

fun py_len :: "'f pyval \<Rightarrow> error + nat" where
  "py_len (Scalar (PyStr s)) = Inr (length s)"
| "py_len (Scalar x) = Inl TypeError"
| "py_len (PyList xs) = Inr (length xs)"
| "py_len (PyDict d) = Inr (length d)"

record validation_result =
  ok :: bool
  out_len :: nat
  has_summary :: bool
  has_causes :: bool
  has_recs :: bool
  has_conf :: bool

text \<open>The body of the validation loop, up to the line it prints.\<close>

definition check_line :: "(pystr \<Rightarrow> 'f pyfloat) \<Rightarrow> pystr \<Rightarrow> error + validation_result" where
  "check_line pf line =
     ebind (json_loads pf line) (\<lambda>d.
     ebind (subscript d (py ''output'')) (\<lambda>out.
     ebind (py_in (py ''SUMMARY:'') out) (\<lambda>has_summary.
     ebind (py_in (py ''CAUSES:'') out) (\<lambda>has_causes.
     ebind (py_in (py ''RECOMMENDATIONS:'') out) (\<lambda>has_recs.
     ebind (py_in (py ''CONFIDENCE:'') out) (\<lambda>has_conf.
     let ok = has_summary \<and> has_causes \<and> has_recs \<and> has_conf in
     ebind (py_len out) (\<lambda>n.
     Inr \<lparr>ok = ok, out_len = n, has_summary = has_summary, has_causes = has_causes,
          has_recs = has_recs, has_conf = has_conf\<rparr>)))))))"

text \<open>
  The loop threads \<open>all_good\<close> and the report printed so far; an exception ends it.
\<close>

fun validation_loop :: "(pystr \<Rightarrow> 'f pyfloat) \<Rightarrow> pystr list \<Rightarrow> bool \<times> validation_result list \<Rightarrow>
    error + bool \<times> validation_result list" where
  "validation_loop pf [] st = Inr st"
| "validation_loop pf (line # lines) st =
     (case check_line pf line of
        Inl e \<Rightarrow> Inl e
      | Inr r \<Rightarrow>
          validation_loop pf lines
            (if \<not> ok r then False else fst st, snd st @ [r]))"

section \<open>The script\<close>

text \<open>
  Writing the file: \<open>open(output_file, 'w')\<close> with the loop in its \<open>with\<close> block leaves the
  text written up to the end of the loop, or up to the exception that ended it. Reading
  it: \<open>open(output_file, 'r')\<close> and \<open>readlines\<close>.
\<close>

definition open_read :: "filesystem \<Rightarrow> string \<Rightarrow> error + pystr" where
  "open_read fs path = (case fs path of None \<Rightarrow> Inl FileNotFoundError | Some f \<Rightarrow> Inr f)"

definition main :: "('f \<Rightarrow> pystr) \<Rightarrow> (pystr \<Rightarrow> 'f pyfloat) \<Rightarrow> 'f scenario list \<Rightarrow> filesystem \<Rightarrow>
    filesystem \<times> (error + bool \<times> validation_result list)" where
  "main fr pf scenarios fs =
     (let (err, content) = generation_loop fr scenarios [];
          fs' = fs(output_file \<mapsto> content)
      in case err of
           Some e \<Rightarrow> (fs', Inl e)
         | None \<Rightarrow>
             (fs', ebind (open_read fs' output_file) (\<lambda>f.
                   validation_loop pf (readlines f) (True, []))))"

section \<open>Valid records\<close>

fun is_str :: "'f scalar \<Rightarrow> bool" where
  "is_str (PyStr s) = True"
| "is_str _ = False"

fun is_float :: "'f scalar \<Rightarrow> bool" where
  "is_float (PyFloat x) = True"
| "is_float _ = False"

fun the_str :: "'f scalar \<Rightarrow> pystr" where
  "the_str (PyStr s) = s"
| "the_str _ = []"

definition is_str_field :: "'f scalar option \<Rightarrow> bool" where
  "is_str_field v = (case v of Some (PyStr s) \<Rightarrow> True | _ \<Rightarrow> False)"

definition is_float_field :: "'f scalar option \<Rightarrow> bool" where
  "is_float_field v = (case v of Some (PyFloat x) \<Rightarrow> True | _ \<Rightarrow> False)"

definition is_texts_field :: "'f scalar list option \<Rightarrow> bool" where
  "is_texts_field v =
     (case v of Some xs \<Rightarrow> list_all is_str xs \<and> 2 \<le> length xs \<and> length xs \<le> 3
      | None \<Rightarrow> False)"

text \<open>
  The data model of the specification: every field present; service, operation, severity
  name and summary strings; the four measurements floats; the severity an integer from 1
  to 4; two or three cause strings and two or three recommendation strings; the confidence
  one of low, medium, high.
\<close>

definition valid_record :: "'f scenario \<Rightarrow> bool" where
  "valid_record s \<longleftrightarrow>
     is_str_field (service s) \<and> is_str_field (operation s) \<and>
     is_float_field (duration s) \<and> is_float_field (expected_mean s) \<and>
     is_float_field (expected_std s) \<and> is_float_field (deviation s) \<and>
     (case severity s of Some (PyInt n) \<Rightarrow> 1 \<le> n \<and> n \<le> 4 | _ \<Rightarrow> False) \<and>
     is_str_field (severity_name s) \<and>
     attributes s \<noteq> None \<and>
     is_str_field (summary s) \<and>
     is_texts_field (causes s) \<and> is_texts_field (recommendations s) \<and>
     (case confidence s of
        Some (PyStr c) \<Rightarrow> c = py ''low'' \<or> c = py ''medium'' \<or> c = py ''high''
      | _ \<Rightarrow> False)"

section \<open>Statements of the specification\<close>

text \<open>The text of a string field, and the texts of a field that lists strings.\<close>

definition field_text :: "'f scalar option \<Rightarrow> pystr" where
  "field_text v = (case v of Some x \<Rightarrow> the_str x | None \<Rightarrow> [])"

definition field_texts :: "'f scalar list option \<Rightarrow> pystr list" where
  "field_texts v = (case v of Some xs \<Rightarrow> map the_str xs | None \<Rightarrow> [])"

text \<open>
  The response contract in the specification's words: four blocks of lines, each under
  its marker, one line feed between consecutive lines.
\<close>

definition bullet :: "pystr \<Rightarrow> pystr" where
  "bullet t = py ''- '' @ t"

definition response_blocks :: "pystr \<Rightarrow> pystr list \<Rightarrow> pystr list \<Rightarrow> pystr \<Rightarrow> pystr list list" where
  "response_blocks sm cs rs cf =
     [[py ''SUMMARY: '' @ sm],
      py ''CAUSES:'' # map bullet cs,
      py ''RECOMMENDATIONS:'' # map bullet rs,
      [py ''CONFIDENCE: '' @ cf]]"

definition canonical_response :: "pystr \<Rightarrow> pystr list \<Rightarrow> pystr list \<Rightarrow> pystr \<Rightarrow> pystr" where
  "canonical_response sm cs rs cf = join nl (concat (response_blocks sm cs rs cf))"

text \<open>
  The lines of a text (\<open>text.split('\n')\<close>), and the bullet lines under a marker: the run of
  lines that begin with a dash and a space, right after the first line that is the marker.
\<close>

fun split_on :: "nat \<Rightarrow> pystr \<Rightarrow> pystr list" where
  "split_on c [] = [[]]"
| "split_on c (x # xs) =
     (if x = c then [] # split_on c xs
      else (case split_on c xs of [] \<Rightarrow> [[x]] | l # ls \<Rightarrow> (x # l) # ls))"

definition bullets_under :: "pystr \<Rightarrow> pystr \<Rightarrow> pystr list" where
  "bullets_under marker text =
     takeWhile (prefix (py ''- '')) (tl (dropWhile (\<lambda>l. l \<noteq> marker) (split_on 10 text)))"

definition single_line :: "pystr \<Rightarrow> bool" where
  "single_line t \<longleftrightarrow> 10 \<notin> set t"

text \<open>
  The fields each renderer subscripts, in the order it evaluates them, each with whether
  the record has it; and the names of those a record lacks.
\<close>

definition prompt_fields :: "'f scenario \<Rightarrow> (string \<times> bool) list" where
  "prompt_fields s =
     [(''service'', service s \<noteq> None), (''operation'', operation s \<noteq> None),
      (''duration'', duration s \<noteq> None), (''expected_mean'', expected_mean s \<noteq> None),
      (''expected_std'', expected_std s \<noteq> None), (''deviation'', deviation s \<noteq> None),
      (''severity'', severity s \<noteq> None), (''severity_name'', severity_name s \<noteq> None),
      (''attributes'', attributes s \<noteq> None)]"

definition response_fields :: "'f scenario \<Rightarrow> (string \<times> bool) list" where
  "response_fields s =
     [(''causes'', causes s \<noteq> None), (''recommendations'', recommendations s \<noteq> None),
      (''summary'', summary s \<noteq> None), (''confidence'', confidence s \<noteq> None)]"

definition missing :: "(string \<times> bool) list \<Rightarrow> string list" where
  "missing fs = map fst (filter (\<lambda>f. \<not> snd f) fs)"

text \<open>
  A renderer's result against its fields: a text when the record lacks none of them,
  otherwise the \<open>KeyError\<close> of the first one it lacks.
\<close>

definition raises_first_missing :: "error + pystr \<Rightarrow> (string \<times> bool) list \<Rightarrow> bool" where
  "raises_first_missing res fs =
     (case missing fs of
        [] \<Rightarrow> (case res of Inr text \<Rightarrow> True | Inl e \<Rightarrow> False)
      | k # ks \<Rightarrow> res = Inl (KeyError (py k)))"

text \<open>Two records agree on the inputs of the prompt, or on the inputs of the response.\<close>

definition same_prompt_inputs :: "'f scenario \<Rightarrow> 'f scenario \<Rightarrow> bool" where
  "same_prompt_inputs a b \<longleftrightarrow>
     service a = service b \<and> operation a = operation b \<and> duration a = duration b \<and>
     expected_mean a = expected_mean b \<and> expected_std a = expected_std b \<and>
     deviation a = deviation b \<and> severity a = severity b \<and>
     severity_name a = severity_name b \<and> attributes a = attributes b"

definition same_response_inputs :: "'f scenario \<Rightarrow> 'f scenario \<Rightarrow> bool" where
  "same_response_inputs a b \<longleftrightarrow>
     summary a = summary b \<and> causes a = causes b \<and>
     recommendations a = recommendations b \<and> confidence a = confidence b"

text \<open>A dict of three string items, and the training example of an instruction and an output.\<close>

definition string_entry :: "pystr \<Rightarrow> pystr \<Rightarrow> pystr \<Rightarrow> pystr \<Rightarrow> pystr \<Rightarrow> pystr \<Rightarrow> 'f pyval" where
  "string_entry k1 v1 k2 v2 k3 v3 =
     PyDict [(k1, Scalar (PyStr v1)), (k2, Scalar (PyStr v2)), (k3, Scalar (PyStr v3))]"

definition training_example :: "pystr \<Rightarrow> pystr \<Rightarrow> 'f pyval" where
  "training_example i out =
     string_entry (py ''instruction'') i (py ''input'') [] (py ''output'') out"

text \<open>
  What the validator is to report for a line: the output string of the line, when the line
  is a JSON object with a string under \<open>output\<close>; the four markers; the result for an
  output string.
\<close>

definition line_output :: "(pystr \<Rightarrow> 'f pyfloat) \<Rightarrow> pystr \<Rightarrow> pystr option" where
  "line_output pf line =
     (case json_loads pf line of
        Inl e \<Rightarrow> None
      | Inr d \<Rightarrow>
          (case subscript d (py ''output'') of
             Inr (Scalar (PyStr out)) \<Rightarrow> Some out
           | _ \<Rightarrow> None))"

definition markers :: "pystr list" where
  "markers = [py ''SUMMARY:'', py ''CAUSES:'', py ''RECOMMENDATIONS:'', py ''CONFIDENCE:'']"

definition all_markers :: "pystr \<Rightarrow> bool" where
  "all_markers out = list_all (\<lambda>m. sublist m out) markers"

definition marker_report :: "pystr \<Rightarrow> validation_result" where
  "marker_report out =
     \<lparr>ok = all_markers out, out_len = length out,
      has_summary = sublist (py ''SUMMARY:'') out, has_causes = sublist (py ''CAUSES:'') out,
      has_recs = sublist (py ''RECOMMENDATIONS:'') out,
      has_conf = sublist (py ''CONFIDENCE:'') out\<rparr>"

text \<open>The line written for an entry.\<close>

definition entry_line :: "('f \<Rightarrow> pystr) \<Rightarrow> 'f pyval \<Rightarrow> pystr" where
  "entry_line fr e = json_dumps fr e @ nl"











section \<open>Example records\<close>

text \<open>
  In the example records a finite float is written by its \<open>repr\<close>, so \<open>float.__repr__\<close> is
  the identity and \<open>float\<close> on a number token keeps the token.
\<close>

definition repr_0 :: "pystr \<Rightarrow> pystr" where
  "repr_0 x = x"

definition float_0 :: "pystr \<Rightarrow> pystr pyfloat" where
  "float_0 x = Finite x"

text \<open>The first record of \<open>scenarios\<close>.\<close>

definition scenario_0 :: "pystr scenario" where
  "scenario_0 = \<lparr>
     service = Some (PyStr (py ''kx-exchange'')),
     operation = Some (PyStr (py ''pg-pool.connect'')),
     duration = Some (PyFloat (Finite (py ''276.32''))),
     expected_mean = Some (PyFloat (Finite (py ''2.58''))),
     expected_std = Some (PyFloat (Finite (py ''1.82''))),
     deviation = Some (PyFloat (Finite (py ''6.89''))),
     severity = Some (PyInt 3),
     severity_name = Some (PyStr (py ''Warning'')),
     attributes = Some [(py ''db.system'', PyStr (py ''postgresql'')),
        (py ''db.connection_string'', PyStr (py ''pg-pool.connect''))],
     summary = Some (PyStr (py ''The pg-pool.connect operation took 276ms instead of the expected 2.58ms, indicating a connection pool exhaustion event. This is typically caused by either a burst of concurrent requests depleting available connections, or by idle connections being reaped by PostgreSQL while the pool was not replenished.'')),
     causes = Some [PyStr (py ''Connection pool exhaustion due to a sudden spike in concurrent database requests exceeding the max pool size''),
        PyStr (py ''PostgreSQL's idle connection timeout may have closed stale connections, forcing new TCP handshakes''),
        PyStr (py ''DNS resolution delay for the database host during connection establishment'')],
     recommendations = Some [PyStr (py ''Increase the connection pool's min and max size to handle traffic spikes (current max may be too low for peak load)''),
        PyStr (py ''Configure connection pool idle timeout to match PostgreSQL's idle_in_transaction_session_timeout''),
        PyStr (py ''Add connection pool metrics (available, waiting, total) to the monitoring dashboard for early warning'')],
     confidence = Some (PyStr (py ''high''))\<rparr>"

text \<open>A record whose first cause spans two lines.\<close>

definition scenario_two_line_cause :: "pystr scenario" where
  "scenario_two_line_cause = \<lparr>
     service = Some (PyStr (py ''kx-exchange'')),
     operation = Some (PyStr (py ''pg-pool.connect'')),
     duration = Some (PyFloat (Finite (py ''276.32''))),
     expected_mean = Some (PyFloat (Finite (py ''2.58''))),
     expected_std = Some (PyFloat (Finite (py ''1.82''))),
     deviation = Some (PyFloat (Finite (py ''6.89''))),
     severity = Some (PyInt 3),
     severity_name = Some (PyStr (py ''Warning'')),
     attributes = Some [(py ''db.system'', PyStr (py ''postgresql''))],
     summary = Some (PyStr (py ''Pool exhausted.'')),
     causes = Some [PyStr (py ''burst of requests\<newline>- see dashboard''), PyStr (py ''slow DNS'')],
     recommendations = Some [PyStr (py ''raise pool size''), PyStr (py ''add metrics'')],
     confidence = Some (PyStr (py ''high''))\<rparr>"

text \<open>A record whose summary ends with a line feed.\<close>

definition scenario_blank_line :: "pystr scenario" where
  "scenario_blank_line =
     scenario_two_line_cause\<lparr>summary := Some (PyStr (py ''Pool exhausted.\<newline>'')),
       causes := Some [PyStr (py ''burst of requests''), PyStr (py ''slow DNS'')]\<rparr>"

text \<open>Two outputs, the first without the causes marker, and the lines written for them.\<close>

definition output_no_causes :: pystr where
  "output_no_causes = py ''SUMMARY: a\<newline>RECOMMENDATIONS:\<newline>- c\<newline>CONFIDENCE: low''"

definition output_all_markers :: pystr where
  "output_all_markers =
     py ''SUMMARY: a\<newline>CAUSES:\<newline>- b\<newline>RECOMMENDATIONS:\<newline>- c\<newline>CONFIDENCE: low''"

definition example_lines :: "pystr list" where
  "example_lines =
     [entry_line repr_0 (training_example (py ''prompt'') output_no_causes),
      entry_line repr_0 (training_example (py ''prompt'') output_all_markers)]"

text \<open>The rendered part of a corpus: the entries of its records up to the first that raises.\<close>

fun rendered :: "('f \<Rightarrow> pystr) \<Rightarrow> 'f scenario list \<Rightarrow> 'f pyval list" where
  "rendered fr [] = []"
| "rendered fr (s # ss) =
     (case make_entry fr s of Inl e \<Rightarrow> [] | Inr entry \<Rightarrow> entry # rendered fr ss)"


text \<open>A record without the service and causes keys.\<close>

definition scenario_missing :: "pystr scenario" where
  "scenario_missing = scenario_0\<lparr>service := None, causes := None\<rparr>"

text \<open>The second record of \<open>scenarios\<close>, cut down to what tells it from the first.\<close>

definition scenario_other_prompt :: "pystr scenario" where
  "scenario_other_prompt =
     scenario_0\<lparr>service := Some (PyStr (py ''api-gateway'')),
       operation := Some (PyStr (py ''kong.proxy'')),
       duration := Some (PyFloat (Finite (py ''1523.45''))),
       severity := Some (PyInt 2), severity_name := Some (PyStr (py ''Major'')),
       attributes := Some [(py ''http.status_code'', PyInt 200)]\<rparr>"

definition scenario_other_response :: "pystr scenario" where
  "scenario_other_response =
     scenario_0\<lparr>summary := Some (PyStr (py ''A SELECT query on the orders table took 845ms.'')),
       causes := Some [PyStr (py ''Missing or stale index''), PyStr (py ''Table bloat'')],
       recommendations := Some [PyStr (py ''Run EXPLAIN ANALYZE''), PyStr (py ''Trigger VACUUM'')],
       confidence := Some (PyStr (py ''medium''))\<rparr>"

section \<open>Lists and strings\<close>

lemma join_Cons: "ys \<noteq> [] \<Longrightarrow> join sep (x # ys) = x @ sep @ join sep ys"
  by (cases ys) simp_all

lemma join_append:
  "xs \<noteq> [] \<Longrightarrow> ys \<noteq> [] \<Longrightarrow> join sep (xs @ ys) = join sep xs @ sep @ join sep ys"
proof (induction xs)
  case Nil
  then show ?case by simp
next
  case (Cons x xs)
  then show ?case by (cases "xs = []") (simp_all add: join_Cons)
qed

lemma map_the_str: "list_all is_str xs \<Longrightarrow> map (PyStr \<circ> the_str) xs = xs"
proof (induction xs)
  case Nil
  then show ?case by simp
next
  case (Cons x xs)
  then show ?case by (cases x) simp_all
qed

lemma format_bullets: "map ((\<lambda>c. py ''- '' @ py_format fr c) \<circ> PyStr) ts = map bullet ts"
  by (simp add: bullet_def)

lemma marker_literals:
  "py ''\<newline>CAUSES:\<newline>'' = nl @ py ''CAUSES:'' @ nl"
  "py ''\<newline>RECOMMENDATIONS:\<newline>'' = nl @ py ''RECOMMENDATIONS:'' @ nl"
  "py ''\<newline>CONFIDENCE: '' = nl @ py ''CONFIDENCE: ''"
  by (simp_all add: py_def nl_def)

lemma canonical_response_unfold:
  assumes "cs \<noteq> []" "rs \<noteq> []"
  shows "canonical_response sm cs rs cf =
      py ''SUMMARY: '' @ sm @ nl @ py ''CAUSES:'' @ nl @ join nl (map bullet cs) @ nl @
      py ''RECOMMENDATIONS:'' @ nl @ join nl (map bullet rs) @ nl @ py ''CONFIDENCE: '' @ cf"
  using assms by (simp add: canonical_response_def response_blocks_def join_Cons join_append)

lemma build_output_texts:
  assumes "summary s = Some (PyStr sm)" "causes s = Some (map PyStr cs)"
    "recommendations s = Some (map PyStr rs)" "confidence s = Some (PyStr cf)"
    "cs \<noteq> []" "rs \<noteq> []"
  shows "build_output fr s = Inr (canonical_response sm cs rs cf)"
  using assms(1-4) canonical_response_unfold [OF assms(5,6)]
  by (simp add: build_output_def ebind_def getitem_def format_bullets marker_literals)

section \<open>Valid records\<close>

lemma str_fieldD: "is_str_field v \<Longrightarrow> v = Some (PyStr (field_text v))"
  by (auto simp: is_str_field_def field_text_def split: option.splits scalar.splits)

lemma texts_fieldD:
  assumes "is_texts_field v"
  shows "v = Some (map PyStr (field_texts v))" "2 \<le> length (field_texts v)"
    "length (field_texts v) \<le> 3"
  using assms
  by (auto simp: is_texts_field_def field_texts_def map_the_str split: option.splits)

lemma valid_confidence:
  assumes "valid_record s"
  shows "confidence s = Some (PyStr (field_text (confidence s)))"
    "field_text (confidence s) \<in> {py ''low'', py ''medium'', py ''high''}"
  using assms
  by (auto simp: valid_record_def field_text_def split: option.splits scalar.splits)

lemma valid_build_output:
  assumes "valid_record s"
  shows "build_output fr s =
    Inr (canonical_response (field_text (summary s)) (field_texts (causes s))
      (field_texts (recommendations s)) (field_text (confidence s)))"
proof -
  from assms have sm: "is_str_field (summary s)" and cs: "is_texts_field (causes s)"
    and rs: "is_texts_field (recommendations s)"
    by (simp_all add: valid_record_def)
  from texts_fieldD(2) [OF cs] have c0: "field_texts (causes s) \<noteq> []" by auto
  from texts_fieldD(2) [OF rs] have r0: "field_texts (recommendations s) \<noteq> []" by auto
  show ?thesis
    by (rule build_output_texts [OF str_fieldD [OF sm] texts_fieldD(1) [OF cs]
          texts_fieldD(1) [OF rs] valid_confidence(1) [OF assms] c0 r0])
qed

lemma valid_scenario_0: "valid_record scenario_0"
  by (simp add: valid_record_def scenario_0_def is_str_field_def is_float_field_def
      is_texts_field_def)


section \<open>The canonical response\<close>

lemma response_lines_nonempty: "[] \<notin> set (concat (response_blocks sm cs rs cf))"
  by (auto simp: response_blocks_def bullet_def py_def)

lemma no_trailing_newline:
  assumes "cf \<in> {py ''low'', py ''medium'', py ''high''}" "cs \<noteq> []" "rs \<noteq> []"
  shows "\<not> suffix nl (canonical_response sm cs rs cf)"
proof -
  have "cf \<noteq> [] \<and> last cf \<noteq> 10"
    using assms(1) by (auto simp: py_def)
  then have "last (canonical_response sm cs rs cf) \<noteq> 10"
    by (simp add: canonical_response_unfold [OF assms(2,3)])
  then show ?thesis
    by (auto simp: suffix_def nl_def)
qed

section \<open>Missing fields\<close>

lemma raises_first_missing_Inr: "raises_first_missing (Inr text) []"
  by (simp add: raises_first_missing_def missing_def)

lemma raises_first_missing_step:
  assumes "\<And>x. v = Some x \<Longrightarrow> raises_first_missing (f x) fs"
  shows "raises_first_missing (ebind (getitem k v) f) ((k, v \<noteq> None) # fs)"
  using assms
  by (cases v) (simp_all add: raises_first_missing_def missing_def ebind_def getitem_def)

lemma build_instruction_raises:
  "raises_first_missing (build_instruction fr s) (prompt_fields s)"
  unfolding build_instruction_def prompt_fields_def
  by (intro raises_first_missing_step raises_first_missing_Inr)

lemma build_output_raises:
  "raises_first_missing (build_output fr s) (response_fields s)"
  unfolding build_output_def response_fields_def Let_def
  by (intro raises_first_missing_step raises_first_missing_Inr)

lemma valid_no_missing:
  assumes "valid_record s"
  shows "missing (prompt_fields s) = []" "missing (response_fields s) = []"
  using assms
  by (auto simp: valid_record_def missing_def prompt_fields_def response_fields_def
      is_str_field_def is_float_field_def is_texts_field_def split: option.splits)

text \<open>
  C8. Each renderer returns a text when the record has every field it subscripts, and
  otherwise raises the \<open>KeyError\<close> of the first field the record lacks; it never puts a
  default in its place. On a valid record both renderers return a text.
\<close>

theorem renderers_raise_on_missing_field:
  "raises_first_missing (build_instruction fr s) (prompt_fields s) \<and>
   raises_first_missing (build_output fr s) (response_fields s) \<and>
   (valid_record s \<longrightarrow>
      (\<exists>text. build_instruction fr s = Inr text) \<and> (\<exists>text. build_output fr s = Inr text))"
proof -
  have "(\<exists>text. build_instruction fr s = Inr text) \<and> (\<exists>text. build_output fr s = Inr text)"
    if v: "valid_record s"
    using build_instruction_raises [of fr s] build_output_raises [of fr s] valid_no_missing [OF v]
    by (auto simp: raises_first_missing_def split: sum.splits)
  with build_instruction_raises build_output_raises show ?thesis
    by blast
qed

theorem renderers_raise_on_missing_field_witness:
  "valid_record scenario_0 \<and>
   (\<exists>text. build_instruction repr_0 scenario_0 = Inr text) \<and>
   (\<exists>text. build_output repr_0 scenario_0 = Inr text) \<and>
   missing (prompt_fields scenario_missing) = [''service''] \<and>
   missing (response_fields scenario_missing) = [''causes''] \<and>
   build_instruction repr_0 scenario_missing = Inl (KeyError (py ''service'')) \<and>
   build_output repr_0 scenario_missing = Inl (KeyError (py ''causes''))"
proof -
  have m: "missing (prompt_fields scenario_missing) = [''service'']"
    "missing (response_fields scenario_missing) = [''causes'']"
    by (simp_all add: missing_def prompt_fields_def response_fields_def scenario_missing_def
        scenario_0_def)
  from renderers_raise_on_missing_field [of repr_0 scenario_missing] m
  have r: "build_instruction repr_0 scenario_missing = Inl (KeyError (py ''service''))"
    "build_output repr_0 scenario_missing = Inl (KeyError (py ''causes''))"
    by (simp_all add: raises_first_missing_def)
  from renderers_raise_on_missing_field [of repr_0 scenario_0] valid_scenario_0
  have v: "(\<exists>text. build_instruction repr_0 scenario_0 = Inr text) \<and>
      (\<exists>text. build_output repr_0 scenario_0 = Inr text)"
    by blast
  from valid_scenario_0 v m r show ?thesis by blast
qed

section \<open>Noninterference\<close>

text \<open>
  C10. Two records that agree on the nine fields of the prompt get the same result from
  \<open>build_instruction\<close>, whatever their other fields; two records that agree on summary,
  causes, recommendations and confidence get the same result from \<open>build_output\<close>.
\<close>

theorem renderers_noninterference:
  "(same_prompt_inputs a b \<longrightarrow> build_instruction fr a = build_instruction fr b) \<and>
   (same_response_inputs c d \<longrightarrow> build_output fr c = build_output fr d)"
  by (simp add: same_prompt_inputs_def same_response_inputs_def build_instruction_def
      build_output_def)

theorem renderers_noninterference_witness:
  "same_prompt_inputs scenario_0 scenario_other_response \<and>
   summary scenario_0 \<noteq> summary scenario_other_response \<and>
   build_instruction repr_0 scenario_0 = build_instruction repr_0 scenario_other_response \<and>
   same_response_inputs scenario_0 scenario_other_prompt \<and>
   service scenario_0 \<noteq> service scenario_other_prompt \<and>
   build_output repr_0 scenario_0 = build_output repr_0 scenario_other_prompt"
proof -
  have a: "same_prompt_inputs scenario_0 scenario_other_response"
    by (simp add: same_prompt_inputs_def scenario_other_response_def)
  have b: "same_response_inputs scenario_0 scenario_other_prompt"
    by (simp add: same_response_inputs_def scenario_other_prompt_def)
  have c: "summary scenario_0 \<noteq> summary scenario_other_response"
    by (simp add: scenario_other_response_def scenario_0_def py_def)
  have d: "service scenario_0 \<noteq> service scenario_other_prompt"
    by (simp add: scenario_other_prompt_def scenario_0_def py_def)
  from renderers_noninterference
    [of scenario_0 scenario_other_response repr_0 scenario_0 scenario_other_prompt] a b c d
  show ?thesis by blast
qed

section \<open>Lines\<close>

lemma split_on_no_sep: "c \<notin> set a \<Longrightarrow> split_on c a = [a]"
  by (induction a) auto

lemma split_on_append_sep: "c \<notin> set a \<Longrightarrow> split_on c (a @ c # b) = a # split_on c b"
  by (induction a) auto

lemma split_on_join:
  assumes "ls \<noteq> []" "\<forall>l \<in> set ls. c \<notin> set l"
  shows "split_on c (join [c] ls) = ls"
  using assms
proof (induction ls)
  case Nil
  then show ?case by simp
next
  case (Cons l ls)
  show ?case
  proof (cases "ls = []")
    case True
    with Cons.prems show ?thesis by (simp add: split_on_no_sep)
  next
    case False
    with Cons show ?thesis by (simp add: join_Cons split_on_append_sep)
  qed
qed

section \<open>Bullet lines\<close>

lemma single_line_iff: "single_line t \<longleftrightarrow> 10 \<notin> set t"
  by (simp add: single_line_def)

lemma response_lines_single:
  assumes "single_line sm" "list_all single_line cs" "list_all single_line rs" "single_line cf"
  shows "\<forall>l \<in> set (concat (response_blocks sm cs rs cf)). 10 \<notin> set l"
  using assms
  by (auto simp: response_blocks_def bullet_def single_line_iff list_all_iff py_def)

lemma split_canonical_response:
  assumes "single_line sm" "list_all single_line cs" "list_all single_line rs" "single_line cf"
  shows "split_on 10 (canonical_response sm cs rs cf) = concat (response_blocks sm cs rs cf)"
proof -
  have "concat (response_blocks sm cs rs cf) \<noteq> []"
    by (simp add: response_blocks_def)
  then show ?thesis
    unfolding canonical_response_def nl_def
    by (rule split_on_join) (rule response_lines_single [OF assms])
qed

lemma takeWhile_bullets:
  assumes "\<not> prefix (py ''- '') l"
  shows "takeWhile (prefix (py ''- '')) (map bullet ts @ l # ls) = map bullet ts"
  using assms by (induction ts) (simp_all add: bullet_def)

lemma dropWhile_bullets:
  assumes "\<not> prefix (py ''- '') m"
  shows "dropWhile (\<lambda>l. l \<noteq> m) (map bullet ts @ ls) = dropWhile (\<lambda>l. l \<noteq> m) ls"
  using assms by (induction ts) (auto simp: bullet_def)

lemma bullets_under_causes:
  "takeWhile (prefix (py ''- ''))
     (tl (dropWhile (\<lambda>l. l \<noteq> py ''CAUSES:'') (concat (response_blocks sm cs rs cf)))) =
   map bullet cs"
proof -
  have "\<not> prefix (py ''- '') (py ''RECOMMENDATIONS:'')"
    by (simp add: py_def)
  from takeWhile_bullets [OF this] have
    "takeWhile (prefix (py ''- ''))
       (map bullet cs @ py ''RECOMMENDATIONS:'' # map bullet rs @ [py ''CONFIDENCE: '' @ cf]) =
     map bullet cs" .
  moreover have "py ''SUMMARY: '' @ sm \<noteq> py ''CAUSES:''"
    by (simp add: py_def)
  ultimately show ?thesis
    by (simp add: response_blocks_def)
qed

lemma bullets_under_recommendations:
  "takeWhile (prefix (py ''- ''))
     (tl (dropWhile (\<lambda>l. l \<noteq> py ''RECOMMENDATIONS:'') (concat (response_blocks sm cs rs cf)))) =
   map bullet rs"
proof -
  have "\<not> prefix (py ''- '') (py ''CONFIDENCE: '' @ cf)"
    by (simp add: py_def)
  from takeWhile_bullets [OF this, of rs "[]"] have t:
    "takeWhile (prefix (py ''- '')) (map bullet rs @ [py ''CONFIDENCE: '' @ cf]) = map bullet rs" .
  have "\<not> prefix (py ''- '') (py ''RECOMMENDATIONS:'')"
    by (simp add: py_def)
  from dropWhile_bullets [OF this] have d:
    "dropWhile (\<lambda>l. l \<noteq> py ''RECOMMENDATIONS:'')
       (map bullet cs @ py ''RECOMMENDATIONS:'' # map bullet rs @ [py ''CONFIDENCE: '' @ cf]) =
     py ''RECOMMENDATIONS:'' # map bullet rs @ [py ''CONFIDENCE: '' @ cf]"
    by simp
  have n: "py ''SUMMARY: '' @ sm \<noteq> py ''RECOMMENDATIONS:''"
    "py ''CAUSES:'' \<noteq> py ''RECOMMENDATIONS:''"
    by (simp_all add: py_def)
  show ?thesis
    using t d n by (simp add: response_blocks_def)
qed

text \<open>
  C3, amended. For every valid record whose summary, causes and recommendations contain no
  line feed, the bullet lines under the causes marker of the rendered response are the
  record's causes, each after a dash and a space, as many and in the same order; likewise
  the bullet lines under the recommendations marker and the record's recommendations.
\<close>

theorem bullets_match_single_line_texts:
  assumes "valid_record s" "single_line (field_text (summary s))"
    "list_all single_line (field_texts (causes s))"
    "list_all single_line (field_texts (recommendations s))"
  shows "\<exists>out. build_output fr s = Inr out \<and>
    bullets_under (py ''CAUSES:'') out = map bullet (field_texts (causes s)) \<and>
    bullets_under (py ''RECOMMENDATIONS:'') out = map bullet (field_texts (recommendations s))"
proof -
  have "single_line (field_text (confidence s))"
    using valid_confidence(2) [OF assms(1)] by (auto simp: single_line_iff py_def)
  from split_canonical_response [OF assms(2-4) this] show ?thesis
    by (simp add: valid_build_output [OF assms(1)] bullets_under_def bullets_under_causes
        bullets_under_recommendations)
qed

lemma scenario_0_single_line:
  "single_line (field_text (summary scenario_0))"
  "list_all single_line (field_texts (causes scenario_0))"
  "list_all single_line (field_texts (recommendations scenario_0))"
  by (simp_all add: scenario_0_def field_text_def field_texts_def single_line_def py_def)

theorem bullets_match_single_line_texts_witness:
  "valid_record scenario_0 \<and> single_line (field_text (summary scenario_0)) \<and>
   list_all single_line (field_texts (causes scenario_0)) \<and>
   list_all single_line (field_texts (recommendations scenario_0)) \<and>
   (\<exists>out. build_output repr_0 scenario_0 = Inr out \<and>
     bullets_under (py ''CAUSES:'') out = map bullet (field_texts (causes scenario_0)) \<and>
     bullets_under (py ''RECOMMENDATIONS:'') out =
       map bullet (field_texts (recommendations scenario_0)))"
  using bullets_match_single_line_texts [OF valid_scenario_0 scenario_0_single_line, of repr_0]
    valid_scenario_0 scenario_0_single_line
  by blast

lemma valid_scenario_two_line_cause: "valid_record scenario_two_line_cause"
  by (simp add: valid_record_def scenario_two_line_cause_def is_str_field_def
      is_float_field_def is_texts_field_def)

text \<open>
  C3 as stated fails on a valid record with a line feed inside a cause: the record has two
  causes and the response has three bullet lines under the causes marker.
\<close>

theorem bullets_count_counterexample:
  "valid_record scenario_two_line_cause \<and>
   length (field_texts (causes scenario_two_line_cause)) = 2 \<and>
   (case build_output repr_0 scenario_two_line_cause of
      Inr out \<Rightarrow> length (bullets_under (py ''CAUSES:'') out) = 3
    | Inl e \<Rightarrow> False)"
proof -
  have "length (field_texts (causes scenario_two_line_cause)) = 2"
    by (simp add: scenario_two_line_cause_def field_texts_def)
  moreover have "case build_output repr_0 scenario_two_line_cause of
      Inr out \<Rightarrow> length (bullets_under (py ''CAUSES:'') out) = 3
    | Inl e \<Rightarrow> False"
    by code_simp
  ultimately show ?thesis
    using valid_scenario_two_line_cause by blast
qed

section \<open>Decoding an encoded string\<close>

lemma hex_val_hex_digit: "d < 16 \<Longrightarrow> hex_val (hex_digit d) = Some d"
  by (auto simp: hex_val_def hex_digit_def)

lemma decode_u_escape:
  assumes "c < 32"
  shows "decode_uXXXX (drop 2 (u_escape c) @ rest) = Some c"
proof -
  from assms have z: "c div 4096 = 0" "c div 256 = 0" "c div 16 mod 16 = c div 16"
    by simp_all
  have "c div 16 * 16 + c mod 16 = c"
    by simp
  with z show ?thesis
    using assms by (simp add: u_escape_def hex_val_hex_digit)
qed

lemma scanstring_plain:
  assumes "c \<noteq> 34" "c \<noteq> 92" "\<not> c < 32"
  shows "scanstring (c # rest) = cons_char c (scanstring rest)"
  using assms by (subst scanstring.simps(2)) simp

lemma scanstring_backslash:
  assumes "backslash e = Some ch" "e \<noteq> 117"
  shows "scanstring (92 # e # rest) = cons_char ch (scanstring rest)"
  using assms by (subst scanstring.simps(2)) simp

lemma scanstring_u_escape:
  assumes "c < 32"
  shows "scanstring (u_escape c @ rest) = cons_char c (scanstring rest)"
proof -
  from assms have d: "decode_uXXXX (drop 2 (u_escape c) @ rest) = Some c"
    by (rule decode_u_escape)
  have u: "u_escape c @ rest = 92 # 117 # (drop 2 (u_escape c) @ rest)"
    by (simp add: u_escape_def)
  have l: "drop 4 (drop 2 (u_escape c) @ rest) = rest"
    by (simp add: u_escape_def)
  have h: "\<not> 55296 \<le> c"
    using assms by simp
  show ?thesis
    unfolding u
    by (subst scanstring.simps(2)) (simp only: d l h list.case option.case if_False if_True
        simp_thms numeral_eq_iff num.distinct semiring_norm)
qed

lemma scanstring_replace_char:
  "scanstring (replace_char c @ rest) = cons_char c (scanstring rest)"
proof -
  consider "c = 92" | "c = 34" | "c = 8" | "c = 12" | "c = 10" | "c = 13" | "c = 9"
    | "c < 32" "c \<notin> {8, 12, 10, 13, 9}" | "\<not> c < 32" "c \<noteq> 92" "c \<noteq> 34"
    by auto
  then show ?thesis
  proof cases
    case 8
    then have "replace_char c = u_escape c"
      by (auto simp: replace_char_def escape_dct_def)
    with 8 show ?thesis
      by (simp add: scanstring_u_escape del: scanstring.simps)
  next
    case 9
    then have "replace_char c = [c]"
      by (auto simp: replace_char_def escape_dct_def)
    with 9 show ?thesis
      by (simp add: scanstring_plain del: scanstring.simps)
  qed (simp_all add: replace_char_def escape_dct_def scanstring_backslash backslash_def
      del: scanstring.simps)
qed

lemma scanstring_encoded:
  "scanstring (concat (map replace_char s) @ 34 # rest) = Inr (s, rest)"
proof (induction s)
  case Nil
  show ?case by simp
next
  case (Cons c s)
  then show ?case
    by (simp add: scanstring_replace_char cons_char_def del: scanstring.simps)
qed

lemma encode_basestring_Cons:
  "encode_basestring s @ rest = 34 # (concat (map replace_char s) @ 34 # rest)"
  by (simp add: encode_basestring_def)

lemma scan_once_encoded:
  "scan_once pf (Suc n) (encode_basestring s @ rest) = Inr (Scalar (PyStr s), rest)"
  unfolding encode_basestring_Cons
  by (subst scan_once.simps(2))
    (simp only: list.case if_True scanstring_encoded sum.case prod.case simp_thms)

lemma scan_once_quoted:
  "scan_once pf (Suc n) (34 # concat (map replace_char s) @ 34 # rest) =
     Inr (Scalar (PyStr s), rest)"
  using scan_once_encoded [of pf n s rest] by (simp only: encode_basestring_Cons)

section \<open>Decoding an encoded entry\<close>

lemma skip_ws_simps:
  "skip_ws [] = []"
  "skip_ws (32 # s) = skip_ws s"
  "skip_ws (10 # s) = skip_ws s"
  "skip_ws (34 # s) = 34 # s"
  "skip_ws (44 # s) = 44 # s"
  "skip_ws (58 # s) = 58 # s"
  "skip_ws (123 # s) = 123 # s"
  "skip_ws (125 # s) = 125 # s"
  by (simp_all add: skip_ws_def is_ws_def)

lemma object_pairs_more:
  "object_pairs pf (Suc (Suc n))
     (concat (map replace_char k) @ 34 # 58 # 32 # 34 # concat (map replace_char v) @
        34 # 44 # 32 # 34 # rest) pairs =
   object_pairs pf (Suc n) rest (pairs @ [(k, Scalar (PyStr v))])"
  by (subst object_pairs.simps(2))
    (simp add: scanstring_encoded skip_ws_simps scan_once_quoted
      del: scanstring.simps scan_once.simps object_pairs.simps array_items.simps)

lemma object_pairs_last:
  "object_pairs pf (Suc (Suc n))
     (concat (map replace_char k) @ 34 # 58 # 32 # 34 # concat (map replace_char v) @
        34 # 125 # rest) pairs =
   Inr (PyDict (dict (pairs @ [(k, Scalar (PyStr v))])), rest)"
  by (subst object_pairs.simps(2))
    (simp add: scanstring_encoded skip_ws_simps scan_once_quoted
      del: scanstring.simps scan_once.simps object_pairs.simps array_items.simps)

lemma dict_set_fresh: "k \<notin> fst ` set d \<Longrightarrow> dict_set d k v = d @ [(k, v)]"
  by (induction d) auto

lemma foldl_dict_set:
  "distinct (map fst (d @ kvs)) \<Longrightarrow>
   foldl (\<lambda>d kv. dict_set d (fst kv) (snd kv)) d kvs = d @ kvs"
proof (induction kvs arbitrary: d)
  case Nil
  then show ?case by simp
next
  case (Cons kv kvs)
  from Cons.prems have "fst kv \<notin> fst ` set d"
    by auto
  then have "dict_set d (fst kv) (snd kv) = d @ [kv]"
    by (simp add: dict_set_fresh)
  moreover from Cons.prems have "distinct (map fst ((d @ [kv]) @ kvs))"
    by simp
  ultimately show ?case
    using Cons.IH [of "d @ [kv]"] by simp
qed

lemma dict_distinct: "distinct (map fst kvs) \<Longrightarrow> dict kvs = kvs"
  using foldl_dict_set [of "[]" kvs] by (simp add: dict_def)

lemma json_dumps_string_entry:
  "json_dumps fr (string_entry k1 v1 k2 v2 k3 v3) @ rest =
     123 # 34 # concat (map replace_char k1) @ 34 # 58 # 32 # 34 # concat (map replace_char v1) @
     34 # 44 # 32 # 34 # concat (map replace_char k2) @ 34 # 58 # 32 # 34 #
     concat (map replace_char v2) @
     34 # 44 # 32 # 34 # concat (map replace_char k3) @ 34 # 58 # 32 # 34 #
     concat (map replace_char v3) @ 34 # 125 # rest"
  by (simp add: string_entry_def encode_basestring_def py_def)

lemma scan_once_string_entry:
  assumes "distinct [k1, k2, k3]"
  shows "scan_once pf (Suc (Suc (Suc (Suc (Suc n)))))
      (json_dumps fr (string_entry k1 v1 k2 v2 k3 v3) @ rest) =
    Inr (string_entry k1 v1 k2 v2 k3 v3, rest)"
proof -
  have "dict [(k1, Scalar (PyStr v1)), (k2, Scalar (PyStr v2)), (k3, Scalar (PyStr v3))] =
      [(k1, Scalar (PyStr v1)), (k2, Scalar (PyStr v2)), (k3, Scalar (PyStr v3 :: 'a scalar))]"
    using assms by (intro dict_distinct) simp
  then show ?thesis
    unfolding json_dumps_string_entry
    by (subst scan_once.simps(2))
      (simp add: skip_ws_simps object_pairs_more object_pairs_last string_entry_def
        del: scanstring.simps scan_once.simps object_pairs.simps array_items.simps)
qed

lemma json_loads_string_entry:
  assumes "distinct [k1, k2, k3]"
  shows "json_loads pf (json_dumps fr (string_entry k1 v1 k2 v2 k3 v3) @ nl) =
    Inr (string_entry k1 v1 k2 v2 k3 v3)"
proof -
  let ?line = "json_dumps fr (string_entry k1 v1 k2 v2 k3 v3) @ nl"
  have "3 \<le> length ?line"
    unfolding json_dumps_string_entry by simp
  then obtain n where n: "2 * length ?line + 2 = Suc (Suc (Suc (Suc (Suc n))))"
    by (metis add_2_eq_Suc' le_Suc_ex mult_2 numeral_3_eq_3 add_Suc add_Suc_right)
  have s: "skip_ws ?line = ?line"
    unfolding json_dumps_string_entry by (simp add: skip_ws_simps)
  show ?thesis
    unfolding json_loads_def s n scan_once_string_entry [OF assms]
    by (simp add: nl_def skip_ws_simps)
qed

section \<open>The lines of the response\<close>

text \<open>
  C1, amended. For every valid record whose summary, causes and recommendations contain no
  line feed, the lines of the rendered response are, in order: the summary line, the
  causes marker and one bullet line per cause, the recommendations marker and one bullet
  line per recommendation, the confidence line. No line is empty and the text does not
  end with a line feed.
\<close>

theorem build_output_lines:
  assumes "valid_record s" "single_line (field_text (summary s))"
    "list_all single_line (field_texts (causes s))"
    "list_all single_line (field_texts (recommendations s))"
  shows "\<exists>out. build_output fr s = Inr out \<and>
    split_on 10 out =
      [py ''SUMMARY: '' @ field_text (summary s)] @
      (py ''CAUSES:'' # map bullet (field_texts (causes s))) @
      (py ''RECOMMENDATIONS:'' # map bullet (field_texts (recommendations s))) @
      [py ''CONFIDENCE: '' @ field_text (confidence s)] \<and>
    [] \<notin> set (split_on 10 out) \<and> \<not> suffix nl out"
proof -
  let ?out = "canonical_response (field_text (summary s)) (field_texts (causes s))
    (field_texts (recommendations s)) (field_text (confidence s))"
  from assms(1) have cs: "is_texts_field (causes s)" and rs: "is_texts_field (recommendations s)"
    by (simp_all add: valid_record_def)
  from texts_fieldD(2) [OF cs] have c0: "field_texts (causes s) \<noteq> []" by auto
  from texts_fieldD(2) [OF rs] have r0: "field_texts (recommendations s) \<noteq> []" by auto
  have "single_line (field_text (confidence s))"
    using valid_confidence(2) [OF assms(1)] by (auto simp: single_line_iff py_def)
  from split_canonical_response [OF assms(2-4) this]
  have l: "split_on 10 ?out = concat (response_blocks (field_text (summary s))
      (field_texts (causes s)) (field_texts (recommendations s)) (field_text (confidence s)))" .
  have "[] \<notin> set (split_on 10 ?out)"
    unfolding l by (rule response_lines_nonempty)
  moreover have "\<not> suffix nl ?out"
    by (rule no_trailing_newline [OF valid_confidence(2) [OF assms(1)] c0 r0])
  moreover have "split_on 10 ?out =
      [py ''SUMMARY: '' @ field_text (summary s)] @
      (py ''CAUSES:'' # map bullet (field_texts (causes s))) @
      (py ''RECOMMENDATIONS:'' # map bullet (field_texts (recommendations s))) @
      [py ''CONFIDENCE: '' @ field_text (confidence s)]"
    unfolding l by (simp add: response_blocks_def)
  ultimately show ?thesis
    using valid_build_output [OF assms(1), of fr] by blast
qed

theorem build_output_lines_witness:
  "valid_record scenario_0 \<and> single_line (field_text (summary scenario_0)) \<and>
   list_all single_line (field_texts (causes scenario_0)) \<and>
   list_all single_line (field_texts (recommendations scenario_0)) \<and>
   (\<exists>out. build_output repr_0 scenario_0 = Inr out \<and>
     length (split_on 10 out) = 10 \<and> [] \<notin> set (split_on 10 out) \<and> \<not> suffix nl out)"
proof -
  from build_output_lines [OF valid_scenario_0 scenario_0_single_line, of repr_0]
  obtain out where o: "build_output repr_0 scenario_0 = Inr out"
    "split_on 10 out =
      [py ''SUMMARY: '' @ field_text (summary scenario_0)] @
      (py ''CAUSES:'' # map bullet (field_texts (causes scenario_0))) @
      (py ''RECOMMENDATIONS:'' # map bullet (field_texts (recommendations scenario_0))) @
      [py ''CONFIDENCE: '' @ field_text (confidence scenario_0)]"
    "[] \<notin> set (split_on 10 out)" "\<not> suffix nl out"
    by blast
  have "length (field_texts (causes scenario_0)) = 3"
    "length (field_texts (recommendations scenario_0)) = 3"
    by (simp_all add: scenario_0_def field_texts_def)
  with o(2) have "length (split_on 10 out) = 10"
    by simp
  with o(1,3,4) valid_scenario_0 scenario_0_single_line show ?thesis
    by blast
qed

text \<open>
  C1 as stated fails on a valid record whose summary ends with a line feed: the response
  has an empty line between the summary block and the causes block.
\<close>

lemma valid_scenario_blank_line: "valid_record scenario_blank_line"
  by (simp add: valid_record_def scenario_blank_line_def scenario_two_line_cause_def
      is_str_field_def is_float_field_def is_texts_field_def)

theorem build_output_blank_line_counterexample:
  "valid_record scenario_blank_line \<and>
   (case build_output repr_0 scenario_blank_line of
      Inr out \<Rightarrow> take 3 (split_on 10 out) = [py ''SUMMARY: Pool exhausted.'', [], py ''CAUSES:'']
    | Inl e \<Rightarrow> False)"
proof -
  have "case build_output repr_0 scenario_blank_line of
      Inr out \<Rightarrow> take 3 (split_on 10 out) = [py ''SUMMARY: Pool exhausted.'', [], py ''CAUSES:'']
    | Inl e \<Rightarrow> False"
    by code_simp
  with valid_scenario_blank_line show ?thesis
    by blast
qed

section \<open>The markers of the response\<close>

lemma sublist_markers:
  assumes "cs \<noteq> []" "rs \<noteq> []"
  shows "sublist (py ''SUMMARY:'') (canonical_response sm cs rs cf)"
    "sublist (py ''CAUSES:'') (canonical_response sm cs rs cf)"
    "sublist (py ''RECOMMENDATIONS:'') (canonical_response sm cs rs cf)"
    "sublist (py ''CONFIDENCE:'') (canonical_response sm cs rs cf)"
proof -
  note u = canonical_response_unfold [OF assms, of sm cf]
  have "canonical_response sm cs rs cf = [] @ py ''SUMMARY:'' @
      (py '' '' @ sm @ nl @ py ''CAUSES:'' @ nl @ join nl (map bullet cs) @ nl @
      py ''RECOMMENDATIONS:'' @ nl @ join nl (map bullet rs) @ nl @ py ''CONFIDENCE: '' @ cf)"
    unfolding u by (simp add: py_def)
  then show "sublist (py ''SUMMARY:'') (canonical_response sm cs rs cf)"
    by (metis sublist_appendI)
  have "canonical_response sm cs rs cf = (py ''SUMMARY: '' @ sm @ nl) @ py ''CAUSES:'' @
      (nl @ join nl (map bullet cs) @ nl @
      py ''RECOMMENDATIONS:'' @ nl @ join nl (map bullet rs) @ nl @ py ''CONFIDENCE: '' @ cf)"
    unfolding u by simp
  then show "sublist (py ''CAUSES:'') (canonical_response sm cs rs cf)"
    by (metis sublist_appendI)
  have "canonical_response sm cs rs cf =
      (py ''SUMMARY: '' @ sm @ nl @ py ''CAUSES:'' @ nl @ join nl (map bullet cs) @ nl) @
      py ''RECOMMENDATIONS:'' @ (nl @ join nl (map bullet rs) @ nl @ py ''CONFIDENCE: '' @ cf)"
    unfolding u by simp
  then show "sublist (py ''RECOMMENDATIONS:'') (canonical_response sm cs rs cf)"
    by (metis sublist_appendI)
  have "canonical_response sm cs rs cf =
      (py ''SUMMARY: '' @ sm @ nl @ py ''CAUSES:'' @ nl @ join nl (map bullet cs) @ nl @
       py ''RECOMMENDATIONS:'' @ nl @ join nl (map bullet rs) @ nl) @
      py ''CONFIDENCE:'' @ (py '' '' @ cf)"
    unfolding u by (simp add: py_def)
  then show "sublist (py ''CONFIDENCE:'') (canonical_response sm cs rs cf)"
    by (metis sublist_appendI)
qed

lemma valid_all_markers:
  assumes "valid_record s"
  shows "\<exists>out. build_output fr s = Inr out \<and> all_markers out \<and>
    marker_report out = \<lparr>ok = True, out_len = length out, has_summary = True,
      has_causes = True, has_recs = True, has_conf = True\<rparr>"
proof -
  from assms have cs: "is_texts_field (causes s)" and rs: "is_texts_field (recommendations s)"
    by (simp_all add: valid_record_def)
  from texts_fieldD(2) [OF cs] have c0: "field_texts (causes s) \<noteq> []" by auto
  from texts_fieldD(2) [OF rs] have r0: "field_texts (recommendations s) \<noteq> []" by auto
  show ?thesis
    using valid_build_output [OF assms, of fr] sublist_markers [OF c0 r0]
    by (simp add: all_markers_def markers_def marker_report_def)
qed

section \<open>Entries\<close>

lemma entry_keys_distinct: "distinct [py ''instruction'', py ''input'', py ''output'']"
  by (simp add: py_def)

lemma json_loads_training_example:
  "json_loads pf (entry_line fr (training_example i out)) = Inr (training_example i out)"
  unfolding entry_line_def training_example_def
  by (rule json_loads_string_entry [OF entry_keys_distinct])

lemma make_entry_Inr:
  assumes "make_entry fr s = Inr e"
  shows "\<exists>i out. build_instruction fr s = Inr i \<and> build_output fr s = Inr out \<and>
    e = training_example i out"
  using assms
  by (auto simp: make_entry_def ebind_def training_example_def string_entry_def
      split: sum.splits)

lemma make_entry_valid:
  assumes "valid_record s"
  shows "\<exists>i. build_instruction fr s = Inr i \<and>
    make_entry fr s = Inr (training_example i (canonical_response (field_text (summary s))
      (field_texts (causes s)) (field_texts (recommendations s)) (field_text (confidence s))))"
proof -
  from build_instruction_raises [of fr s] valid_no_missing(1) [OF assms]
  obtain i where "build_instruction fr s = Inr i"
    by (auto simp: raises_first_missing_def split: sum.splits)
  then show ?thesis
    by (simp add: make_entry_def ebind_def valid_build_output [OF assms] training_example_def
        string_entry_def)
qed

text \<open>
  C4. The line written for a training example decodes to that example: the same three
  keys in the order instruction, input, output, with the same strings. Every entry the
  generation loop makes is such an example, with the empty string under input.
\<close>

theorem entry_json_roundtrip:
  "json_loads pf (entry_line fr (training_example i out)) = Inr (training_example i out) \<and>
   training_example i out =
     PyDict [(py ''instruction'', Scalar (PyStr i)), (py ''input'', Scalar (PyStr [])),
       (py ''output'', Scalar (PyStr out))] \<and>
   entry_line fr (training_example i out) =
     py ''{'' @ encode_basestring (py ''instruction'') @ py '': '' @ encode_basestring i @
     py '', '' @ encode_basestring (py ''input'') @ py '': '' @ encode_basestring [] @
     py '', '' @ encode_basestring (py ''output'') @ py '': '' @ encode_basestring out @
     py ''}'' @ nl \<and>
   (make_entry fr s = Inr e \<longrightarrow>
      (\<exists>i' out'. build_instruction fr s = Inr i' \<and> build_output fr s = Inr out' \<and>
         e = training_example i' out') \<and>
      json_loads pf (entry_line fr e) = Inr e)"
proof -
  have "json_loads pf (entry_line fr e) = Inr e" if "make_entry fr s = Inr e"
    using make_entry_Inr [OF that] json_loads_training_example by blast
  moreover have "entry_line fr (training_example i out) =
     py ''{'' @ encode_basestring (py ''instruction'') @ py '': '' @ encode_basestring i @
     py '', '' @ encode_basestring (py ''input'') @ py '': '' @ encode_basestring [] @
     py '', '' @ encode_basestring (py ''output'') @ py '': '' @ encode_basestring out @
     py ''}'' @ nl"
    by (simp add: entry_line_def training_example_def string_entry_def)
  ultimately show ?thesis
    using json_loads_training_example [of pf fr i out] make_entry_Inr [of fr s e]
    by (simp add: training_example_def string_entry_def)
qed

theorem entry_json_roundtrip_witness:
  "\<exists>e. make_entry repr_0 scenario_0 = Inr e \<and>
     json_loads float_0 (entry_line repr_0 e) = Inr e"
proof -
  from make_entry_valid [OF valid_scenario_0, of repr_0]
  obtain e where e: "make_entry repr_0 scenario_0 = Inr e"
    by blast
  from entry_json_roundtrip [of float_0 repr_0 "[]" "[]" scenario_0 e] e
  show ?thesis by blast
qed

section \<open>Checking a written line\<close>

lemma check_line_output:
  assumes "line_output pf line = Some out"
  shows "check_line pf line = Inr (marker_report out)"
proof -
  from assms obtain d where d: "json_loads pf line = Inr d"
    and o: "subscript d (py ''output'') = Inr (Scalar (PyStr out))"
    by (auto simp: line_output_def split: sum.splits pyval.splits scalar.splits)
  show ?thesis
    by (simp add: check_line_def d o ebind_def marker_report_def all_markers_def markers_def)
qed

lemma line_output_training_example:
  "line_output pf (entry_line fr (training_example i out)) = Some out"
proof -
  have "subscript (training_example i out :: 'a pyval) (py ''output'') = Inr (Scalar (PyStr out))"
    by (simp add: training_example_def string_entry_def py_def)
  then show ?thesis
    by (simp add: line_output_def json_loads_training_example)
qed

text \<open>
  C2. For every valid record the entry of the generation loop is written as a line on
  which the validation loop's check finds all four markers in the output field: the four
  flags and the verdict of the line are true.
\<close>

theorem valid_record_passes_check:
  assumes "valid_record s"
  shows "\<exists>i out. build_output fr s = Inr out \<and> make_entry fr s = Inr (training_example i out) \<and>
    sublist (py ''SUMMARY:'') out \<and> sublist (py ''CAUSES:'') out \<and>
    sublist (py ''RECOMMENDATIONS:'') out \<and> sublist (py ''CONFIDENCE:'') out \<and>
    check_line pf (entry_line fr (training_example i out)) =
      Inr \<lparr>ok = True, out_len = length out, has_summary = True, has_causes = True,
        has_recs = True, has_conf = True\<rparr>"
proof -
  from valid_all_markers [OF assms, of fr] obtain out where
    out: "build_output fr s = Inr out" and m: "all_markers out"
    and r: "marker_report out = \<lparr>ok = True, out_len = length out, has_summary = True,
      has_causes = True, has_recs = True, has_conf = True\<rparr>"
    by blast
  from make_entry_valid [OF assms, of fr] valid_build_output [OF assms, of fr] out
  obtain i where e: "make_entry fr s = Inr (training_example i out)"
    by auto
  have "check_line pf (entry_line fr (training_example i out)) = Inr (marker_report out)"
    by (rule check_line_output [OF line_output_training_example])
  with out e m r show ?thesis
    by (auto simp: all_markers_def markers_def)
qed

theorem valid_record_passes_check_witness:
  "valid_record scenario_0 \<and>
   (\<exists>i out. build_output repr_0 scenario_0 = Inr out \<and>
      check_line float_0 (entry_line repr_0 (training_example i out)) =
        Inr \<lparr>ok = True, out_len = length out, has_summary = True, has_causes = True,
          has_recs = True, has_conf = True\<rparr>)"
  using valid_record_passes_check [OF valid_scenario_0, of repr_0 float_0] valid_scenario_0
  by blast

section \<open>The validation loop\<close>

lemma validation_loop_checked:
  assumes "list_all2 (\<lambda>line r. check_line pf line = Inr r) lines rs"
  shows "validation_loop pf lines (g, acc) = Inr (g \<and> list_all ok rs, acc @ rs)"
  using assms
proof (induction lines rs arbitrary: g acc rule: list_all2_induct)
  case Nil
  show ?case by simp
next
  case (Cons line r lines rs)
  then show ?case by auto
qed

lemma outputs_checked:
  assumes "map (line_output pf) lines = map Some outs"
  shows "list_all2 (\<lambda>line r. check_line pf line = Inr r) lines (map marker_report outs)"
  using assms
proof (induction lines arbitrary: outs)
  case Nil
  then show ?case by simp
next
  case (Cons line lines)
  then obtain out outs' where o: "outs = out # outs'" "line_output pf line = Some out"
    "map (line_output pf) lines = map Some outs'"
    by (cases outs) auto
  with Cons.IH [OF o(3)] check_line_output [OF o(2)] show ?case
    by simp
qed

text \<open>
  C7. On lines that each hold a JSON object with a string under \<open>output\<close>, the validation
  loop returns one result per line, in order, whatever the earlier lines were: a line's
  verdict is true exactly when its output contains all four markers, and \<open>all_good\<close> is
  true exactly when that holds for every line.
\<close>

theorem validation_collects_mismatches:
  assumes "map (line_output pf) lines = map Some outs"
  shows "validation_loop pf lines (True, []) =
      Inr (list_all all_markers outs, map marker_report outs) \<and>
    length (map marker_report outs) = length lines \<and>
    (\<forall>n < length lines. ok (map marker_report outs ! n) \<longleftrightarrow>
       sublist (py ''SUMMARY:'') (outs ! n) \<and> sublist (py ''CAUSES:'') (outs ! n) \<and>
       sublist (py ''RECOMMENDATIONS:'') (outs ! n) \<and> sublist (py ''CONFIDENCE:'') (outs ! n))"
proof -
  have l: "length outs = length lines"
    using arg_cong [OF assms, of length] by simp
  have "list_all ok (map marker_report outs) = list_all all_markers outs"
    by (simp add: list_all_iff marker_report_def)
  with validation_loop_checked [OF outputs_checked [OF assms], of True "[]"]
  have "validation_loop pf lines (True, []) =
      Inr (list_all all_markers outs, map marker_report outs)"
    by simp
  then show ?thesis
    using l by (simp add: marker_report_def all_markers_def markers_def)
qed

theorem validation_collects_mismatches_witness:
  "map (line_output float_0) example_lines = map Some [output_no_causes, output_all_markers] \<and>
   validation_loop float_0 example_lines (True, []) =
     Inr (False, [marker_report output_no_causes, marker_report output_all_markers]) \<and>
   \<not> ok (marker_report output_no_causes) \<and> ok (marker_report output_all_markers)"
proof -
  have l: "map (line_output float_0) example_lines =
      map Some [output_no_causes, output_all_markers]"
    by (simp add: example_lines_def line_output_training_example)
  have a: "\<not> all_markers output_no_causes"
    by code_simp
  have b: "all_markers output_all_markers"
    by code_simp
  from validation_collects_mismatches [OF l] a b l show ?thesis
    by (simp add: marker_report_def)
qed

section \<open>The written file\<close>








lemma generation_loop_complete:
  "fst (generation_loop fr scenarios f) = None \<longleftrightarrow>
     length (rendered fr scenarios) = length scenarios"
proof (induction scenarios arbitrary: f)
  case Nil
  show ?case by simp
next
  case (Cons s ss)
  have "length (rendered fr ss) \<le> length ss" for ss
    by (induction ss) (auto split: sum.splits)
  from this [of ss] Cons show ?case
    by (auto split: sum.splits)
qed






text \<open>
  C9. The output file after a run is the text of the generation loop on the corpus,
  whatever the file system held before. Two runs on the same corpus leave the same
  output file and give the same report, and a second run after the first changes
  nothing.
\<close>

theorem main_deterministic:
  "fst (main fr pf scenarios fs1) output_file = Some (snd (generation_loop fr scenarios [])) \<and>
   fst (main fr pf scenarios fs1) output_file = fst (main fr pf scenarios fs2) output_file \<and>
   snd (main fr pf scenarios fs1) = snd (main fr pf scenarios fs2) \<and>
   main fr pf scenarios (fst (main fr pf scenarios fs1)) = main fr pf scenarios fs1"
  by (auto simp: main_def Let_def open_read_def ebind_def split: prod.splits option.splits)

section \<open>The prompt\<close>







section \<open>The lines of the attributes block\<close>

declare str_nat.simps [simp del]













end
